theory Spec2Isabelle
  imports Main "HOL-Library.Word"
begin

section \<open>Go run-time outcomes\<close>

text \<open>
  A Go function either returns or panics. A panic is a value of the model: an index
  expression on a slice that is too short, or a field access or method call through a
  nil pointer. An \<open>error\<close> is the message that \<open>err.Error()\<close> yields.
\<close>

datatype go_panic = NilPointerDereference | IndexOutOfRange

datatype 'a exec = Panics go_panic | Returns 'a

type_synonym error = string

section \<open>The bounded cache (package sigstorecache)\<close>

text \<open>
  \<open>Item\<close> is the key-value pair of the source; the value type is a parameter, since the
  cache never inspects it. \<open>Cacheimpl\<close> holds the capacity (the field \<open>size\<close> of the
  source) and the \<open>container/list\<close> list, front first.
\<close>

record 'v Item =
  Key :: string
  Value :: 'v

record 'v Cacheimpl =
  size_cache :: int
  items :: "'v Item list"

definition NewCache :: "int \<Rightarrow> 'v Cacheimpl" where
  "NewCache maximumAmountCache = \<lparr>size_cache = maximumAmountCache, items = []\<rparr>"

text \<open>
  \<open>getElement\<close> walks the list from the front and returns the first element whose key
  matches; a list element is identified by its position, and \<open>None\<close> is the nil element.
\<close>

fun getElement_from :: "'v Item list \<Rightarrow> string \<Rightarrow> nat option" where
  "getElement_from [] key = None"
| "getElement_from (i # rest) key =
     (if Key i = key then Some 0 else map_option Suc (getElement_from rest key))"

definition getElement :: "'v Cacheimpl \<Rightarrow> string \<Rightarrow> nat option" where
  "getElement c key = getElement_from (items c) key"

text \<open>\<open>list.MoveToFront\<close>: an element that is not in the list leaves it unchanged.\<close>

definition MoveToFront :: "'a list \<Rightarrow> nat \<Rightarrow> 'a list" where
  "MoveToFront l e = (if e < length l then l ! e # take e l @ drop (Suc e) l else l)"

definition GetSignature :: "'v Cacheimpl \<Rightarrow> string \<Rightarrow> 'v Item option \<times> 'v Cacheimpl" where
  "GetSignature c key =
     (case getElement c key of
        None \<Rightarrow> (None, c)
      | Some e \<Rightarrow> (Some (items c ! e), c\<lparr>items := MoveToFront (items c) e\<rparr>))"

text \<open>
  \<open>PutSignature\<close>: an existing key is moved to the front and the call returns; the item
  passed in is not stored. Otherwise, when the length equals the capacity, the back
  element is removed (\<open>Back()\<close> of an empty list is nil, and \<open>Remove(nil)\<close> dereferences
  it), and the new item is pushed to the front.
\<close>

definition PutSignature :: "'v Cacheimpl \<Rightarrow> 'v Item \<Rightarrow> 'v Cacheimpl exec" where
  "PutSignature c i =
     (case getElement c (Key i) of
        Some e \<Rightarrow> Returns (c\<lparr>items := MoveToFront (items c) e\<rparr>)
      | None \<Rightarrow>
          if int (length (items c)) = size_cache c then
            (case items c of
               [] \<Rightarrow> Panics NilPointerDereference
             | _ # _ \<Rightarrow> Returns (c\<lparr>items := i # butlast (items c)\<rparr>))
          else Returns (c\<lparr>items := i # items c\<rparr>))"

text \<open>A sequence of calls on one cache, run in order; a panic ends the run.\<close>

datatype 'v cache_call = Call_GetSignature string | Call_PutSignature "'v Item"

fun run_calls :: "'v Cacheimpl \<Rightarrow> 'v cache_call list \<Rightarrow> 'v Cacheimpl exec" where
  "run_calls c [] = Returns c"
| "run_calls c (Call_GetSignature key # rest) = run_calls (snd (GetSignature c key)) rest"
| "run_calls c (Call_PutSignature i # rest) =
     (case PutSignature c i of
        Panics p \<Rightarrow> Panics p
      | Returns c' \<Rightarrow> run_calls c' rest)"

text \<open>The keys that a sequence of calls puts.\<close>

fun put_keys :: "'v cache_call list \<Rightarrow> string list" where
  "put_keys [] = []"
| "put_keys (Call_GetSignature key # rest) = put_keys rest"
| "put_keys (Call_PutSignature i # rest) = Key i # put_keys rest"

text \<open>The items of the cache test of the source, with the subject standing for the value.\<close>

definition item1 :: "string Item" where
  "item1 = \<lparr>Key = ''signature1'', Value = ''spirex1@example.com''\<rparr>"

definition item2 :: "string Item" where
  "item2 = \<lparr>Key = ''signature2'', Value = ''spirex2@example.com''\<rparr>"

definition item3 :: "string Item" where
  "item3 = \<lparr>Key = ''signature3'', Value = ''spirex3@example.com''\<rparr>"

definition item4 :: "string Item" where
  "item4 = \<lparr>Key = ''signature3'', Value = ''spirex4@example.com''\<rparr>"

section \<open>Data of package sigstore\<close>

text \<open>
  Values that \<open>encoding/json\<close> stores in an \<open>interface{}\<close>. A number is kept as its
  literal; the package only asks whether a value is a string.
\<close>

datatype json_value =
    JNull
  | JBool bool
  | JNumber string
  | JString string
  | JArray "json_value list"
  | JObject "(string \<times> json_value) list"

text \<open>
  \<open>payload.SimpleContainerImage\<close>: only \<open>Optional\<close> is read; a nil map is \<open>None\<close>.
\<close>

record SimpleContainerImage =
  Optional :: "(string \<rightharpoonup> json_value) option"

text \<open>
  \<open>x509.Certificate\<close>: the two slices the package reads; a nil slice is \<open>None\<close>, an
  empty one is \<open>Some []\<close>. A URI stands for what its \<open>String()\<close> method returns.
\<close>

record Certificate =
  EmailAddresses :: "string list option"
  URIs :: "string list option"

text \<open>\<open>oci.Bundle\<close> and its payload; \<open>Body\<close> is an \<open>interface{}\<close>.\<close>

record BundlePayload =
  Body :: json_value
  PayloadIntegratedTime :: "64 word"
  PayloadLogIndex :: "64 word"
  PayloadLogID :: string

record Bundle =
  Payload :: BundlePayload

record BundleSignature =
  SignatureContent :: string
  Format :: string
  PublicKey :: "string \<rightharpoonup> string"

record BundleSpec =
  Data :: "string \<rightharpoonup> (string \<rightharpoonup> string)"
  Signature :: BundleSignature

record BundleBody =
  APIVersion :: string
  Kind :: string
  Spec :: BundleSpec

text \<open>
  \<open>oci.Signature\<close> is an interface; a signature is given by what its methods
  \<open>Payload()\<close>, \<open>Cert()\<close> and \<open>Bundle()\<close> return, an error or a value (a nil
  pointer is \<open>None\<close>). A nil interface value is \<open>None :: oci_Signature option\<close>.
\<close>

record oci_Signature =
  Payload_result :: "error + string"
  Cert_result :: "error + Certificate option"
  Bundle_result :: "error + Bundle option"

record SelectorsFromSignatures =
  Subject :: string
  Content :: string
  LogID :: string
  IntegratedTime :: string
  Verified :: bool

text \<open>
  \<open>name.Reference\<close> is implemented by \<open>name.Tag\<close> and \<open>name.Digest\<close>: a repository
  with a tag, or with a digest string.
\<close>

datatype Reference = Tag string string | Digest string string

fun Reference_String :: "Reference \<Rightarrow> string" where
  "Reference_String (Tag repository tag) = repository @ '':'' @ tag"
| "Reference_String (Digest repository digest) = repository @ ''@'' @ digest"

record Descriptor =
  Manifest :: "string option"

record URL =
  Scheme :: string
  Host :: string
  Path :: string

text \<open>The part of \<open>cosign.CheckOpts\<close> that depends on the receiver: the rekor client.\<close>

record CheckOpts =
  RekorBasePath :: string
  RekorHost :: string

record ContainerStatus =
  ImageID :: string
  ContainerID :: string

text \<open>
  Functions of other packages that the source calls, as parameters: the two JSON
  decoders (\<open>json.Unmarshal\<close> into a \<open>SimpleContainerImage\<close> and into a \<open>BundleBody\<close>),
  \<open>base64.StdEncoding.DecodeString\<close>, \<open>name.ParseReference\<close>, \<open>v1.SHA256\<close> followed
  by \<open>String()\<close> of the hash, and \<open>url.Parse\<close>.
\<close>

record externals =
  decode_SimpleContainerImage :: "string \<Rightarrow> error + SimpleContainerImage"
  decode_BundleBody :: "string \<Rightarrow> error + BundleBody"
  base64_DecodeString :: "string \<Rightarrow> error + string"
  name_ParseReference :: "string \<Rightarrow> error + Reference"
  v1_SHA256 :: "string \<Rightarrow> error + string"
  url_Parse :: "string \<Rightarrow> error + URL"

text \<open>
  \<open>json.Unmarshal\<close> reports a syntax error on empty input before it looks at the
  target; on any other input the decoder of the target type decides.
\<close>

definition json_Unmarshal :: "(string \<Rightarrow> error + 'a) \<Rightarrow> string \<Rightarrow> error + 'a" where
  "json_Unmarshal decode data =
     (if data = [] then Inl ''unexpected end of JSON input'' else decode data)"

text \<open>
  \<open>Sigstoreimpl\<close> without its logger. A nil map is \<open>None\<close>. The verify function gets
  the reference and the options and returns signatures, the verified flag and an error;
  the manifest fetch returns an error or a descriptor pointer.
\<close>

record Sigstoreimpl =
  verifyFunction :: "Reference \<Rightarrow> CheckOpts \<Rightarrow> oci_Signature option list \<times> bool \<times> error option"
  fetchImageManifestFunction :: "Reference \<Rightarrow> error + Descriptor option"
  skippedImages :: "(string \<rightharpoonup> bool) option"
  allowListEnabled :: bool
  subjectAllowList :: "(string \<rightharpoonup> bool) option"
  rekorURL :: URL
  sigstorecache :: "SelectorsFromSignatures list Cacheimpl"

definition signatureVerifiedSelector :: string where
  "signatureVerifiedSelector = ''sigstore-validation:passed''"

text \<open>
  \<open>New\<close>: the verify function, the manifest fetch and the default rekor URL come from
  other packages and are parameters.
\<close>

definition New ::
  "(Reference \<Rightarrow> CheckOpts \<Rightarrow> oci_Signature option list \<times> bool \<times> error option) \<Rightarrow>
   (Reference \<Rightarrow> error + Descriptor option) \<Rightarrow> URL \<Rightarrow>
   SelectorsFromSignatures list Cacheimpl \<Rightarrow> Sigstoreimpl" where
  "New cosign_VerifyImageSignatures remote_Get rekor_Default cache =
     \<lparr>verifyFunction = cosign_VerifyImageSignatures,
      fetchImageManifestFunction = remote_Get,
      skippedImages = None,
      allowListEnabled = False,
      subjectAllowList = None,
      rekorURL = rekor_Default,
      sigstorecache = cache\<rparr>"

section \<open>Image validation and signature fetch\<close>

definition validateRefDigest :: "Reference \<Rightarrow> string \<Rightarrow> bool \<times> error option" where
  "validateRefDigest ref digest =
     (case ref of
        Digest repository dgst \<Rightarrow>
          if dgst = digest then (True, None)
          else (False, Some (''Digest '' @ digest @ '' does not match '' @ dgst))
      | Tag repository tag \<Rightarrow>
          (False, Some (''Reference '' @ Reference_String ref @ '' is not a digest'')))"

text \<open>\<open>ValidateImage\<close> reads \<open>desc.Manifest\<close> through the pointer the fetch returned.\<close>

definition ValidateImage ::
  "externals \<Rightarrow> Sigstoreimpl \<Rightarrow> Reference \<Rightarrow> (bool \<times> error option) exec" where
  "ValidateImage lib sigstore ref =
     (case fetchImageManifestFunction sigstore ref of
        Inl err \<Rightarrow> Returns (False, Some err)
      | Inr None \<Rightarrow> Panics NilPointerDereference
      | Inr (Some desc) \<Rightarrow>
          (case Manifest desc of
             None \<Rightarrow> Returns (False, Some ''Manifest is nil'')
           | Some manifest \<Rightarrow>
               (case v1_SHA256 lib manifest of
                  Inl err \<Rightarrow> Returns (False, Some err)
                | Inr hash \<Rightarrow> Returns (validateRefDigest ref hash))))"

definition rekor_CheckOpts :: "Sigstoreimpl \<Rightarrow> CheckOpts" where
  "rekor_CheckOpts sigstore =
     \<lparr>RekorBasePath = Path (rekorURL sigstore), RekorHost = Host (rekorURL sigstore)\<rparr>"

definition FetchImageSignatures ::
  "externals \<Rightarrow> Sigstoreimpl \<Rightarrow> string \<Rightarrow> (error + oci_Signature option list) exec" where
  "FetchImageSignatures lib sigstore imageName =
     (case name_ParseReference lib imageName of
        Inl err \<Rightarrow> Returns (Inl (''Error parsing image reference: '' @ err))
      | Inr ref \<Rightarrow>
          (case ValidateImage lib sigstore ref of
             Panics p \<Rightarrow> Panics p
           | Returns (_, Some err) \<Rightarrow>
               Returns (Inl (''Could not validate image reference digest: '' @ err))
           | Returns (_, None) \<Rightarrow>
               (case verifyFunction sigstore ref (rekor_CheckOpts sigstore) of
                  (sigs, ok, Some err) \<Rightarrow> Returns (Inl (''Error verifying signature: '' @ err))
                | (sigs, ok, None) \<Rightarrow>
                    if \<not> ok then Returns (Inl (''Bundle not verified for '' @ imageName))
                    else Returns (Inr sigs))))"

section \<open>Subject and selector extraction\<close>

text \<open>
  \<open>certSubject\<close>: the switch tests the slices against nil and then indexes element 0.
  The regular expression \<open>^\/*(?P<email>.*)\<close> matches once, at the start of the text,
  the leading slashes and the rest of the first line, and the match is replaced by the
  group after the slashes: every leading slash is dropped and nothing else changes.
\<close>

definition ReplaceAllString_email :: "string \<Rightarrow> string" where
  "ReplaceAllString_email uri = dropWhile (\<lambda>ch. ch = CHR ''/'') uri"

definition certSubject :: "Certificate option \<Rightarrow> string exec" where
  "certSubject c =
     (case c of
        None \<Rightarrow> Returns ''''
      | Some cert \<Rightarrow>
          (case EmailAddresses cert of
             Some emails \<Rightarrow>
               (case emails of [] \<Rightarrow> Panics IndexOutOfRange | email # _ \<Rightarrow> Returns email)
           | None \<Rightarrow>
               (case URIs cert of
                  Some uris \<Rightarrow>
                    (case uris of
                       [] \<Rightarrow> Panics IndexOutOfRange
                     | uri # _ \<Rightarrow> Returns (ReplaceAllString_email uri))
                | None \<Rightarrow> Returns '''')))"

text \<open>The subject of the payload: \<open>optional.subject\<close> when it is a string, else empty.\<close>

definition payload_subject :: "SimpleContainerImage \<Rightarrow> string" where
  "payload_subject ss =
     (case Optional ss of
        None \<Rightarrow> ''''
      | Some optional \<Rightarrow>
          (case optional ''subject'' of Some (JString subjString) \<Rightarrow> subjString | _ \<Rightarrow> ''''))"

definition getSignatureSubject :: "externals \<Rightarrow> oci_Signature option \<Rightarrow> (error + string) exec" where
  "getSignatureSubject lib signature =
     (case signature of
        None \<Rightarrow> Returns (Inl ''Signature is nil'')
      | Some sig \<Rightarrow>
          (case Payload_result sig of
             Inl err \<Rightarrow> Returns (Inl err)
           | Inr pl \<Rightarrow>
               (case json_Unmarshal (decode_SimpleContainerImage lib) pl of
                  Inl err \<Rightarrow> Returns (Inl err)
                | Inr ss \<Rightarrow>
                    (case Cert_result sig of
                       Inl err \<Rightarrow> Returns (Inl (''Error acessing the certificate'' @ err))
                     | Inr None \<Rightarrow> Returns (Inr (payload_subject ss))
                     | Inr (Some cert) \<Rightarrow>
                         (case certSubject (Some cert) of
                            Panics p \<Rightarrow> Panics p
                          | Returns subject \<Rightarrow> Returns (Inr subject))))))"

definition getBundleSignatureContent :: "externals \<Rightarrow> Bundle option \<Rightarrow> error + string" where
  "getBundleSignatureContent lib bundle =
     (case bundle of
        None \<Rightarrow> Inl ''Bundle is nil''
      | Some b \<Rightarrow>
          (case Body (Payload b) of
             JString body64 \<Rightarrow>
               (case base64_DecodeString lib body64 of
                  Inl err \<Rightarrow> Inl err
                | Inr body \<Rightarrow>
                    (case json_Unmarshal (decode_BundleBody lib) body of
                       Inl err \<Rightarrow> Inl err
                     | Inr bundlebody \<Rightarrow>
                         if SignatureContent (Signature (Spec bundlebody)) = ''''
                         then Inl ''Bundle payload body has no signature content''
                         else Inr (SignatureContent (Signature (Spec bundlebody)))))
           | _ \<Rightarrow> Inl ''Payload body is not a string''))"

text \<open>\<open>fmt.Sprintf("%d", n)\<close> for a signed integer.\<close>

function decimal :: "nat \<Rightarrow> string" where
  "decimal n =
     (if n < 10 then [char_of (48 + n)] else decimal (n div 10) @ [char_of (48 + n mod 10)])"
  by pat_completeness auto
termination
  by (relation "measure (\<lambda>n. n)") auto

declare decimal.simps [simp del]

definition Sprintf_d :: "int \<Rightarrow> string" where
  "Sprintf_d n = (if n < 0 then CHR ''-'' # decimal (nat (- n)) else decimal (nat n))"

definition empty_SelectorsFromSignatures :: SelectorsFromSignatures where
  "empty_SelectorsFromSignatures =
     \<lparr>Subject = '''', Content = '''', LogID = '''', IntegratedTime = '''', Verified = False\<rparr>"

text \<open>
  \<open>SelectorValuesFromSignature\<close>. When \<open>Bundle()\<close> returns no error, the log id and the
  integrated time are read through the bundle pointer, also when it is nil.
\<close>

definition bundle_selectors ::
  "externals \<Rightarrow> Bundle \<Rightarrow> SelectorsFromSignatures \<Rightarrow> SelectorsFromSignatures" where
  "bundle_selectors lib bundle selectors =
     (let s1 = (case getBundleSignatureContent lib (Some bundle) of
                  Inl err \<Rightarrow> selectors
                | Inr sigContent \<Rightarrow> selectors\<lparr>Content := sigContent\<rparr>);
          s2 = (if PayloadLogID (Payload bundle) \<noteq> ''''
                then s1\<lparr>LogID := PayloadLogID (Payload bundle)\<rparr> else s1)
      in if PayloadIntegratedTime (Payload bundle) \<noteq> 0
         then s2\<lparr>IntegratedTime := Sprintf_d (sint (PayloadIntegratedTime (Payload bundle)))\<rparr>
         else s2)"

definition SelectorValuesFromSignature ::
  "externals \<Rightarrow> Sigstoreimpl \<Rightarrow> oci_Signature option \<Rightarrow> string \<Rightarrow> SelectorsFromSignatures exec" where
  "SelectorValuesFromSignature lib sigstore signature containerID =
     (case getSignatureSubject lib signature of
        Panics p \<Rightarrow> Panics p
      | Returns (Inl err) \<Rightarrow> Returns empty_SelectorsFromSignatures
      | Returns (Inr subject) \<Rightarrow>
          if subject = '''' then Returns empty_SelectorsFromSignatures
          else
            let suppress =
                  (allowListEnabled sigstore \<and>
                   (case subjectAllowList sigstore of
                      None \<Rightarrow> True
                    | Some allowed \<Rightarrow> allowed subject = None))
            in if suppress then Returns empty_SelectorsFromSignatures
               else
                 (case signature of
                    None \<Rightarrow> Panics NilPointerDereference
                  | Some sig \<Rightarrow>
                      (case Bundle_result sig of
                         Inl err \<Rightarrow>
                           Returns (empty_SelectorsFromSignatures\<lparr>Subject := subject, Verified := True\<rparr>)
                       | Inr None \<Rightarrow> Panics NilPointerDereference
                       | Inr (Some bundle) \<Rightarrow>
                           Returns (bundle_selectors lib bundle
                             (empty_SelectorsFromSignatures\<lparr>Subject := subject, Verified := True\<rparr>)))))"

text \<open>
  \<open>ExtractSelectorsFromSignatures\<close>: the loop appends the selectors of each signature
  that is verified; a nil and an empty slice are both the empty list.
\<close>

fun ExtractSelectors_loop ::
  "externals \<Rightarrow> Sigstoreimpl \<Rightarrow> string \<Rightarrow> SelectorsFromSignatures list \<Rightarrow>
   oci_Signature option list \<Rightarrow> SelectorsFromSignatures list exec" where
  "ExtractSelectors_loop lib sigstore containerID selectors [] = Returns selectors"
| "ExtractSelectors_loop lib sigstore containerID selectors (sig # rest) =
     (case SelectorValuesFromSignature lib sigstore sig containerID of
        Panics p \<Rightarrow> Panics p
      | Returns sigSelectors \<Rightarrow>
          ExtractSelectors_loop lib sigstore containerID
            (if Verified sigSelectors then selectors @ [sigSelectors] else selectors) rest)"

definition ExtractSelectorsFromSignatures ::
  "externals \<Rightarrow> Sigstoreimpl \<Rightarrow> oci_Signature option list \<Rightarrow> string \<Rightarrow>
   SelectorsFromSignatures list exec" where
  "ExtractSelectorsFromSignatures lib sigstore signatures containerID =
     ExtractSelectors_loop lib sigstore containerID [] signatures"

definition selectorsToString :: "SelectorsFromSignatures \<Rightarrow> string \<Rightarrow> string list" where
  "selectorsToString selectors containerID =
     (if Subject selectors \<noteq> ''''
      then [containerID @ '':image-signature-subject:'' @ Subject selectors] else [])
     @ (if Content selectors \<noteq> ''''
        then [containerID @ '':image-signature-content:'' @ Content selectors] else [])
     @ (if LogID selectors \<noteq> ''''
        then [containerID @ '':image-signature-logid:'' @ LogID selectors] else [])
     @ (if IntegratedTime selectors \<noteq> ''''
        then [containerID @ '':image-signature-integrated-time:'' @ IntegratedTime selectors]
        else [])"

section \<open>Policy lists, attestation and the rekor URL\<close>

definition ShouldSkipImage :: "Sigstoreimpl \<Rightarrow> string \<Rightarrow> bool \<times> error option" where
  "ShouldSkipImage sigstore imageID =
     (case skippedImages sigstore of
        None \<Rightarrow> (False, None)
      | Some skipped \<Rightarrow>
          if imageID = '''' then (False, Some ''Image ID is empty'')
          else if skipped imageID \<noteq> None then (True, None)
          else (False, None))"

definition AddSkippedImage :: "Sigstoreimpl \<Rightarrow> string \<Rightarrow> Sigstoreimpl" where
  "AddSkippedImage sigstore imageID =
     sigstore\<lparr>skippedImages :=
       Some ((case skippedImages sigstore of None \<Rightarrow> Map.empty | Some skipped \<Rightarrow> skipped)
             (imageID \<mapsto> True))\<rparr>"

definition ClearSkipList :: "Sigstoreimpl \<Rightarrow> Sigstoreimpl" where
  "ClearSkipList sigstore = sigstore\<lparr>skippedImages := None\<rparr>"

definition AddAllowedSubject :: "Sigstoreimpl \<Rightarrow> string \<Rightarrow> Sigstoreimpl" where
  "AddAllowedSubject sigstore subject =
     sigstore\<lparr>subjectAllowList :=
       Some ((case subjectAllowList sigstore of None \<Rightarrow> Map.empty | Some allowed \<Rightarrow> allowed)
             (subject \<mapsto> True))\<rparr>"

definition ClearAllowedSubjects :: "Sigstoreimpl \<Rightarrow> Sigstoreimpl" where
  "ClearAllowedSubjects sigstore = sigstore\<lparr>subjectAllowList := None\<rparr>"

definition EnableAllowSubjectList :: "Sigstoreimpl \<Rightarrow> bool \<Rightarrow> Sigstoreimpl" where
  "EnableAllowSubjectList sigstore flag = sigstore\<lparr>allowListEnabled := flag\<rparr>"

text \<open>The selector strings of a cached or fresh value, as the end of the attestation.\<close>

definition render_selectors :: "SelectorsFromSignatures list \<Rightarrow> string \<Rightarrow> string list" where
  "render_selectors selectors containerID =
     (if length selectors > 0
      then concat (map (\<lambda>selector. selectorsToString selector containerID) selectors)
           @ [signatureVerifiedSelector]
      else [])"

text \<open>
  \<open>AttestContainerSignatures\<close> returns the selector strings or an error, and the cache
  as the call leaves it (the cache is the only part of the receiver it changes). The
  error of \<open>ShouldSkipImage\<close> is assigned to the blank identifier.
\<close>

definition AttestContainerSignatures ::
  "externals \<Rightarrow> Sigstoreimpl \<Rightarrow> ContainerStatus option \<Rightarrow>
   ((error + string list) \<times> SelectorsFromSignatures list Cacheimpl) exec" where
  "AttestContainerSignatures lib sigstore status_ptr =
     (case status_ptr of
        None \<Rightarrow> Panics NilPointerDereference
      | Some status \<Rightarrow>
          if fst (ShouldSkipImage sigstore (ImageID status))
          then Returns (Inr [signatureVerifiedSelector], sigstorecache sigstore)
          else
            (case GetSignature (sigstorecache sigstore) (ImageID status) of
               (Some cachedSignature, cache) \<Rightarrow>
                 Returns (Inr (render_selectors (Value cachedSignature) (ContainerID status)), cache)
             | (None, cache) \<Rightarrow>
                 (case FetchImageSignatures lib sigstore (ImageID status) of
                    Panics p \<Rightarrow> Panics p
                  | Returns (Inl err) \<Rightarrow> Returns (Inl err, cache)
                  | Returns (Inr signatures) \<Rightarrow>
                      (case ExtractSelectorsFromSignatures lib sigstore signatures (ContainerID status) of
                         Panics p \<Rightarrow> Panics p
                       | Returns selectors \<Rightarrow>
                           (case PutSignature cache \<lparr>Key = ImageID status, Value = selectors\<rparr> of
                              Panics p \<Rightarrow> Panics p
                            | Returns cache' \<Rightarrow>
                                Returns (Inr (render_selectors selectors (ContainerID status)),
                                         cache'))))))"

text \<open>\<open>SetRekorURL\<close> returns the error, or the receiver with the parsed URL stored.\<close>

definition SetRekorURL :: "externals \<Rightarrow> Sigstoreimpl \<Rightarrow> string \<Rightarrow> error + Sigstoreimpl" where
  "SetRekorURL lib sigstore rekorURL_str =
     (if rekorURL_str = '''' then Inl ''Rekor URL is empty''
      else
        (case url_Parse lib rekorURL_str of
           Inl err \<Rightarrow> Inl (''Error parsing rekor URI: '' @ err)
         | Inr rekorURI \<Rightarrow>
             if Scheme rekorURI \<noteq> '''' \<and> Scheme rekorURI \<noteq> ''https''
             then Inl (''Invalid rekor URL Scheme: '' @ Scheme rekorURI)
             else if Host rekorURI = ''''
             then Inl (''Invalid rekor URL Host: '' @ Host rekorURI)
             else Inr (sigstore\<lparr>rekorURL := rekorURI\<rparr>)))"

section \<open>The earlier variant of subject extraction (sigstore.go)\<close>

text \<open>
  \<open>getOnlySubject\<close> decodes the payload into a slice of \<open>Optional\<close> structs and takes
  element 0. The decoder is a parameter; a nil slice is \<open>None\<close>. \<open>Sprintf("%s", v)\<close> of
  the nested struct prints the subject inside two pairs of braces, and the regular
  expression \<open>[{}]\<close> then removes every brace.
\<close>

record Subject_struct =
  Subject_field :: string

record Optional_struct =
  Optional_field :: Subject_struct

definition Sprintf_s_Optional :: "Optional_struct \<Rightarrow> string" where
  "Sprintf_s_Optional v = ''{{'' @ Subject_field (Optional_field v) @ ''}}''"

definition getOnlySubject ::
  "(string \<Rightarrow> error + Optional_struct list option) \<Rightarrow> string \<Rightarrow> string exec" where
  "getOnlySubject decode_selector payload =
     (case json_Unmarshal decode_selector payload of
        Inl err \<Rightarrow> Returns ''''
      | Inr selector \<Rightarrow>
          (case selector of
             None \<Rightarrow> Panics IndexOutOfRange
           | Some [] \<Rightarrow> Panics IndexOutOfRange
           | Some (first # _) \<Rightarrow>
               Returns (filter (\<lambda>ch. ch \<noteq> CHR ''{'' \<and> ch \<noteq> CHR ''}'') (Sprintf_s_Optional first))))"

section \<open>Concrete inputs\<close>

text \<open>
  Stand-ins for the functions of other packages on a few inputs, and signatures,
  certificates and receivers built from them; the closed theorems below evaluate the
  model on these. The payloads are JSON texts in the shape of the tests of the source.
\<close>

definition payload_a :: string where
  \<open>payload_a = ''{"critical": {"type": "some type"}, "optional": {"subject": "a@x.com"}}''\<close>

definition payload_no_subject :: string where
  \<open>payload_no_subject = ''{"critical": {"type": "some type"}}''\<close>

definition payload_garbled :: string where
  \<open>payload_garbled = ''{"critical": {"type": "some type"},,''\<close>

definition test_decode_SimpleContainerImage :: "string \<Rightarrow> error + SimpleContainerImage" where
  "test_decode_SimpleContainerImage data =
     (if data = payload_a then Inr \<lparr>Optional = Some [''subject'' \<mapsto> JString ''a@x.com'']\<rparr>
      else if data = payload_no_subject then Inr \<lparr>Optional = None\<rparr>
      else Inl ''invalid character'')"

definition test_ParseReference :: "string \<Rightarrow> error + Reference" where
  "test_ParseReference imageName =
     (if imageName = ''registry/img@sha256:deadbeef''
      then Inr (Digest ''registry/img'' ''sha256:deadbeef'')
      else if imageName = ''registry/img:latest'' then Inr (Tag ''registry/img'' ''latest'')
      else Inl ''could not parse reference'')"

definition test_SHA256 :: "string \<Rightarrow> error + string" where
  "test_SHA256 manifest =
     Inr (if manifest = ''manifest of img'' then ''sha256:deadbeef'' else ''sha256:0badcafe'')"

definition test_url_Parse :: "string \<Rightarrow> error + URL" where
  "test_url_Parse rawURL =
     (if rawURL = ''https://some.url/''
      then Inr \<lparr>Scheme = ''https'', Host = ''some.url'', Path = ''/''\<rparr>
      else if rawURL = ''some.url/api''
      then Inr \<lparr>Scheme = '''', Host = '''', Path = ''some.url/api''\<rparr>
      else if rawURL = ''path-no-host''
      then Inr \<lparr>Scheme = '''', Host = '''', Path = ''path-no-host''\<rparr>
      else if rawURL = ''//some.url/api''
      then Inr \<lparr>Scheme = '''', Host = ''some.url'', Path = ''/api''\<rparr>
      else if rawURL = ''abc://invalid.url.com''
      then Inr \<lparr>Scheme = ''abc'', Host = ''invalid.url.com'', Path = ''''\<rparr>
      else Inl ''invalid URL'')"

definition test_lib :: externals where
  "test_lib =
     \<lparr>decode_SimpleContainerImage = test_decode_SimpleContainerImage,
      decode_BundleBody = (\<lambda>data. Inl ''invalid character''),
      base64_DecodeString = (\<lambda>data. Inl ''illegal base64 data''),
      name_ParseReference = test_ParseReference,
      v1_SHA256 = test_SHA256,
      url_Parse = test_url_Parse\<rparr>"

definition cert_email_b :: Certificate where
  "cert_email_b = \<lparr>EmailAddresses = Some [''b@x.com''], URIs = None\<rparr>"



definition cert_empty :: Certificate where
  "cert_empty = \<lparr>EmailAddresses = None, URIs = None\<rparr>"

definition cert_no_emails :: Certificate where
  "cert_no_emails = \<lparr>EmailAddresses = Some [], URIs = Some [''https://host/path1'']\<rparr>"

definition cert_empty_lists :: Certificate where
  "cert_empty_lists = \<lparr>EmailAddresses = Some [], URIs = Some []\<rparr>"


definition sig_of :: "string \<Rightarrow> Certificate option \<Rightarrow> oci_Signature" where
  "sig_of pl cert = \<lparr>Payload_result = Inr pl, Cert_result = Inr cert, Bundle_result = Inl ''no bundle''\<rparr>"

definition test_fetch :: "Reference \<Rightarrow> error + Descriptor option" where
  "test_fetch ref = Inr (Some \<lparr>Manifest = Some ''manifest of img''\<rparr>)"

definition test_fetch_other :: "Reference \<Rightarrow> error + Descriptor option" where
  "test_fetch_other ref = Inr (Some \<lparr>Manifest = Some ''manifest of another image''\<rparr>)"

definition test_verify ::
  "Reference \<Rightarrow> CheckOpts \<Rightarrow> oci_Signature option list \<times> bool \<times> error option" where
  "test_verify ref co = ([Some (sig_of payload_a (Some cert_email_b))], True, None)"

definition test_verify_unverified ::
  "Reference \<Rightarrow> CheckOpts \<Rightarrow> oci_Signature option list \<times> bool \<times> error option" where
  "test_verify_unverified ref co = ([Some (sig_of payload_a (Some cert_email_b))], False, None)"

definition test_verify_error ::
  "Reference \<Rightarrow> CheckOpts \<Rightarrow> oci_Signature option list \<times> bool \<times> error option" where
  "test_verify_error ref co =
     ([Some (sig_of payload_a (Some cert_email_b))], True, Some ''no matching signatures'')"

definition test_rekor_URL :: URL where
  "test_rekor_URL = \<lparr>Scheme = ''https'', Host = ''rekor.sigstore.dev'', Path = ''/''\<rparr>"

definition test_sigstore :: Sigstoreimpl where
  "test_sigstore = New test_verify test_fetch test_rekor_URL (NewCache 2)"

definition test_decode_selector :: "string \<Rightarrow> error + Optional_struct list option" where
  "test_decode_selector data =
     (if data = ''[]'' then Inr (Some [])
      else if data = ''null'' then Inr None
      else Inl ''invalid character'')"

definition test_status_no_imageID :: ContainerStatus where
  "test_status_no_imageID = \<lparr>ImageID = '''', ContainerID = ''c1''\<rparr>"

definition selector_a :: SelectorsFromSignatures where
  "selector_a =
     \<lparr>Subject = ''a@x.com'', Content = '''', LogID = '''', IntegratedTime = '''', Verified = True\<rparr>"

section \<open>The rules as the specification words them\<close>

text \<open>
  The specification accepts a rekor endpoint that is empty, or a URL whose scheme, if
  present, is https, and whose host, if a scheme is present, is non-empty.
\<close>

definition RekorEndpoint_accepted_spec :: "externals \<Rightarrow> string \<Rightarrow> bool" where
  "RekorEndpoint_accepted_spec lib rekorURL_str =
     (rekorURL_str = '''' \<or>
      (case url_Parse lib rekorURL_str of
         Inl err \<Rightarrow> False
       | Inr u \<Rightarrow> Scheme u = '''' \<or> (Scheme u = ''https'' \<and> Host u \<noteq> '''')))"


section \<open>Properties of the cache\<close>

lemma getElement_from_Some:
  "getElement_from l key = Some e \<Longrightarrow> e < length l \<and> Key (l ! e) = key"
  by (induction l arbitrary: e) (auto split: if_splits)

lemma getElement_from_None: "getElement_from l key = None \<longleftrightarrow> key \<notin> Key ` set l"
  by (induction l) auto

lemma getElement_from_distinct:
  assumes "distinct (map Key l)" and "i \<in> set l"
  shows "\<exists>e. getElement_from l (Key i) = Some e \<and> l ! e = i"
proof -
  from assms(2) have "Key i \<in> Key ` set l" by blast
  then obtain e where e: "getElement_from l (Key i) = Some e"
    using getElement_from_None [of l "Key i"] by (cases "getElement_from l (Key i)") auto
  then have lt: "e < length l" and k: "Key (l ! e) = Key i"
    using getElement_from_Some by blast+
  from assms(1) have "inj_on Key (set l)" by (simp add: distinct_map)
  moreover from lt have "l ! e \<in> set l" by simp
  ultimately have "l ! e = i" using k assms(2) by (auto dest: inj_onD)
  with e show ?thesis by blast
qed

lemma length_MoveToFront: "length (MoveToFront l e) = length l"
  by (auto simp: MoveToFront_def)

lemma hd_MoveToFront: "e < length l \<Longrightarrow> MoveToFront l e = l ! e # take e l @ drop (Suc e) l"
  by (simp add: MoveToFront_def)

lemma size_GetSignature: "size_cache (snd (GetSignature c key)) = size_cache c"
  by (simp add: GetSignature_def split: option.splits)

lemma length_GetSignature: "length (items (snd (GetSignature c key))) = length (items c)"
  by (simp add: GetSignature_def length_MoveToFront split: option.splits)

lemma PutSignature_bounded:
  assumes "1 \<le> size_cache c" and "int (length (items c)) \<le> size_cache c"
  shows "\<exists>c'. PutSignature c i = Returns c' \<and> size_cache c' = size_cache c
           \<and> int (length (items c')) \<le> size_cache c"
proof (cases "getElement c (Key i)")
  case (Some e)
  then show ?thesis using assms by (simp add: PutSignature_def length_MoveToFront)
next
  case None
  show ?thesis
  proof (cases "int (length (items c)) = size_cache c")
    case True
    with assms(1) obtain x xs where "items c = x # xs" by (cases "items c") auto
    with None True assms show ?thesis by (simp add: PutSignature_def)
  next
    case False
    with None assms show ?thesis by (simp add: PutSignature_def)
  qed
qed

lemma run_calls_bounded:
  assumes "1 \<le> size_cache c" and "int (length (items c)) \<le> size_cache c"
  shows "\<exists>c'. run_calls c calls = Returns c' \<and> size_cache c' = size_cache c
           \<and> int (length (items c')) \<le> size_cache c"
  using assms
proof (induction calls arbitrary: c)
  case Nil
  then show ?case by simp
next
  case (Cons call calls)
  show ?case
  proof (cases call)
    case (Call_GetSignature key)
    let ?c1 = "snd (GetSignature c key)"
    have "1 \<le> size_cache ?c1" and "int (length (items ?c1)) \<le> size_cache ?c1"
      using Cons.prems by (simp_all add: size_GetSignature length_GetSignature)
    from Cons.IH [OF this] show ?thesis
      using Call_GetSignature by (simp add: size_GetSignature)
  next
    case (Call_PutSignature i)
    from PutSignature_bounded [OF Cons.prems, of i] obtain c1 where
      put: "PutSignature c i = Returns c1" and sz: "size_cache c1 = size_cache c"
      and len: "int (length (items c1)) \<le> size_cache c" by blast
    have "1 \<le> size_cache c1" and "int (length (items c1)) \<le> size_cache c1"
      using Cons.prems sz len by simp_all
    from Cons.IH [OF this] show ?thesis
      using Call_PutSignature put sz by simp
  qed
qed

lemma take_butlast_back:
  assumes "length l = n" and "0 < n"
  shows "take n (xs @ i # butlast l) = take n (xs @ i # l)"
proof -
  have "xs @ i # butlast l = take (length xs + n) (xs @ i # l)"
    using assms by (cases n) (simp_all add: butlast_conv_take)
  then show ?thesis by (simp add: min_def)
qed

lemma disjoint_insert_subset:
  "A \<subseteq> insert k B \<Longrightarrow> C \<inter> B = {} \<Longrightarrow> k \<notin> C \<Longrightarrow> C \<inter> A = {}"
  by blast

lemma run_puts_items:
  assumes "1 \<le> size_cache c" and "int (length (items c)) \<le> size_cache c"
    and "distinct (map Key is)" and "Key ` set is \<inter> Key ` set (items c) = {}"
  shows "\<exists>c'. run_calls c (map Call_PutSignature is) = Returns c'
           \<and> size_cache c' = size_cache c
           \<and> items c' = take (nat (size_cache c)) (rev is @ items c)"
  using assms
proof (induction "is" arbitrary: c)
  case Nil
  then show ?case by simp
next
  case (Cons i "is")
  let ?n = "nat (size_cache c)"
  from Cons.prems(4) have "Key i \<notin> Key ` set (items c)" by auto
  then have miss: "getElement c (Key i) = None"
    by (simp add: getElement_def getElement_from_None)
  obtain c1 where put: "PutSignature c i = Returns c1" and sz: "size_cache c1 = size_cache c"
    and len: "int (length (items c1)) \<le> size_cache c"
    using PutSignature_bounded [OF Cons.prems(1,2), of i] by blast
  have sub: "set (items c1) \<subseteq> insert i (set (items c))"
    and tk: "take ?n (rev is @ items c1) = take ?n (rev is @ i # items c)"
  proof -
    show "set (items c1) \<subseteq> insert i (set (items c))"
      using put miss by (auto simp: PutSignature_def split: if_splits list.splits dest: in_set_butlastD)
    show "take ?n (rev is @ items c1) = take ?n (rev is @ i # items c)"
    proof (cases "int (length (items c)) = size_cache c")
      case True
      with Cons.prems(1) obtain x xs where l: "items c = x # xs" by (cases "items c") auto
      with put miss True have "items c1 = i # butlast (items c)"
        by (auto simp: PutSignature_def)
      moreover from True Cons.prems(1) have "length (items c) = ?n" and "0 < ?n" by auto
      ultimately show ?thesis using take_butlast_back [of "items c" ?n "rev is" i] by simp
    next
      case False
      with put miss have "items c1 = i # items c" by (auto simp: PutSignature_def)
      then show ?thesis by simp
    qed
  qed
  have "Key i \<notin> Key ` set is" using Cons.prems(3) by auto
  have ksub: "Key ` set (items c1) \<subseteq> insert (Key i) (Key ` set (items c))"
    using sub by blast
  have k4: "Key ` set is \<inter> Key ` set (items c) = {}"
    using Cons.prems(4) by auto
  have disj: "Key ` set is \<inter> Key ` set (items c1) = {}"
    using ksub k4 \<open>Key i \<notin> Key ` set is\<close> by (rule disjoint_insert_subset)
  have "1 \<le> size_cache c1" and "int (length (items c1)) \<le> size_cache c1"
    and "distinct (map Key is)"
    using Cons.prems sz len by simp_all
  from Cons.IH [OF this disj] obtain c' where
    run: "run_calls c1 (map Call_PutSignature is) = Returns c'"
    and sz': "size_cache c' = size_cache c1"
    and it: "items c' = take (nat (size_cache c1)) (rev is @ items c1)" by blast
  from it sz tk have "items c' = take ?n (rev (i # is) @ items c)" by simp
  with run sz' sz put show ?case by simp
qed

lemma set_MoveToFront: "set (MoveToFront l e) = set l"
proof (cases "e < length l")
  case True
  have "set (l ! e # take e l @ drop (Suc e) l) = set (take e l @ l ! e # drop (Suc e) l)"
    by auto
  also have "take e l @ l ! e # drop (Suc e) l = l"
    using True by (simp add: id_take_nth_drop [symmetric])
  finally show ?thesis using True by (simp add: MoveToFront_def)
next
  case False
  then show ?thesis by (simp add: MoveToFront_def)
qed

lemma set_items_GetSignature: "set (items (snd (GetSignature c key))) = set (items c)"
  by (simp add: GetSignature_def set_MoveToFront split: option.splits)

lemma set_items_PutSignature:
  assumes "PutSignature c i = Returns c1"
  shows "set (items c1) \<subseteq> insert i (set (items c))"
proof (cases "getElement c (Key i)")
  case (Some e)
  with assms have "items c1 = MoveToFront (items c) e" by (auto simp: PutSignature_def)
  then show ?thesis by (auto simp: set_MoveToFront)
next
  case None
  with assms have "items c1 = i # butlast (items c) \<or> items c1 = i # items c"
    by (auto simp: PutSignature_def split: if_splits list.splits)
  then show ?thesis by (auto dest: in_set_butlastD)
qed

lemma subset_after_put:
  "A \<subseteq> B \<union> P \<Longrightarrow> B \<subseteq> insert k C \<Longrightarrow> A \<subseteq> C \<union> insert k P"
  by blast

lemma keys_run_calls:
  "run_calls c calls = Returns c' \<Longrightarrow>
     Key ` set (items c') \<subseteq> Key ` set (items c) \<union> set (put_keys calls)"
proof (induction calls arbitrary: c)
  case Nil
  then show ?case by simp
next
  case (Cons call calls)
  show ?case
  proof (cases call)
    case (Call_GetSignature key)
    with Cons.prems have "run_calls (snd (GetSignature c key)) calls = Returns c'" by simp
    from Cons.IH [OF this] show ?thesis
      using Call_GetSignature by (simp add: set_items_GetSignature)
  next
    case (Call_PutSignature i)
    with Cons.prems obtain c1 where put: "PutSignature c i = Returns c1"
      and run: "run_calls c1 calls = Returns c'"
      by (cases "PutSignature c i") simp_all
    have "Key ` set (items c1) \<subseteq> Key ` insert i (set (items c))"
      using set_items_PutSignature [OF put] by (rule image_mono)
    then have "Key ` set (items c1) \<subseteq> insert (Key i) (Key ` set (items c))" by simp
    with Cons.IH [OF run]
    have "Key ` set (items c') \<subseteq> Key ` set (items c) \<union> insert (Key i) (set (put_keys calls))"
      by (rule subset_after_put)
    then show ?thesis using Call_PutSignature by simp
  qed
qed

lemma GetSignature_absent:
  "key \<notin> Key ` set (items c) \<Longrightarrow> GetSignature c key = (None, c)"
  by (simp add: GetSignature_def getElement_def getElement_from_None [symmetric])

lemma GetSignature_present:
  assumes "distinct (map Key (items c))" and "i \<in> set (items c)"
  shows "fst (GetSignature c (Key i)) = Some i"
  using getElement_from_distinct [OF assms]
  by (auto simp: GetSignature_def getElement_def)

lemma PutSignature_existing_key:
  assumes "getElement c (Key i) = Some e"
  shows "PutSignature c i = Returns (c\<lparr>items := MoveToFront (items c) e\<rparr>)"
    and "hd (MoveToFront (items c) e) = items c ! e"
    and "fst (GetSignature (c\<lparr>items := MoveToFront (items c) e\<rparr>) (Key i)) = Some (items c ! e)"
proof -
  from assms have lt: "e < length (items c)" and k: "Key (items c ! e) = Key i"
    using getElement_from_Some [of "items c" "Key i" e] by (simp_all add: getElement_def)
  show "PutSignature c i = Returns (c\<lparr>items := MoveToFront (items c) e\<rparr>)"
    using assms by (simp add: PutSignature_def)
  show "hd (MoveToFront (items c) e) = items c ! e"
    using lt by (simp add: hd_MoveToFront)
  show "fst (GetSignature (c\<lparr>items := MoveToFront (items c) e\<rparr>) (Key i)) = Some (items c ! e)"
    using lt k by (simp add: GetSignature_def getElement_def hd_MoveToFront)
qed

section \<open>Claims about the cache\<close>

text \<open>
  C1. The claim: PutSignature with an item whose key is already present moves the key
  to the most-recently-used position and replaces the stored value, so that a following
  GetSignature returns the new value. The source moves the element to the front and
  returns without storing the item. This replays the cache test of the source on a
  cache of capacity 2: after item1, item2, item1, item3 and then item4 (the key of
  item3 with another value), the front element is the one with the key of item4, yet
  GetSignature of that key returns item3, whose value is not the value of item4 that
  the test expects.
\<close>

theorem PutSignature_existing_key_keeps_old_value:
  "run_calls (NewCache 2)
     [Call_PutSignature item1, Call_PutSignature item2, Call_PutSignature item1,
      Call_PutSignature item3, Call_PutSignature item4]
     = Returns \<lparr>size_cache = 2, items = [item3, item1]\<rparr>
   \<and> fst (GetSignature \<lparr>size_cache = 2, items = [item3, item1]\<rparr> (Key item4)) = Some item3
   \<and> Value item3 \<noteq> Value item4"
  by (simp add: NewCache_def PutSignature_def GetSignature_def getElement_def MoveToFront_def
      item1_def item2_def item3_def item4_def)

text \<open>
  C5, as amended. For a cache of capacity N with N at least 1, after N + 1 items with
  distinct keys are put in order, with no call in between, GetSignature of the first
  key returns nil and GetSignature of each of the other N keys returns the item put
  under it. After any sequence of calls that returns, GetSignature of a key that no
  call has put returns nil, not an item, and leaves the cache as it is.
\<close>

theorem lru_eviction_after_overflow:
  fixes "is" :: "'a Item list"
  assumes "1 \<le> N" and "distinct (map Key is)" and "int (length is) = N + 1"
  shows "(\<exists>c. run_calls (NewCache N) (map Call_PutSignature is) = Returns c
            \<and> fst (GetSignature c (Key (hd is))) = None
            \<and> (\<forall>i \<in> set (tl is). fst (GetSignature c (Key i)) = Some i))
       \<and> (\<forall>calls (c :: 'a Cacheimpl) key.
            run_calls (NewCache N) calls = Returns c \<and> key \<notin> set (put_keys calls) \<longrightarrow>
            GetSignature c key = (None, c))"
proof (rule conjI)
  from assms(1,3) obtain x xs where xs: "is = x # xs" by (cases "is") auto
  with assms(3) have len: "length xs = nat N" by auto
  have "1 \<le> size_cache (NewCache N :: 'a Cacheimpl)"
    and "int (length (items (NewCache N :: 'a Cacheimpl))) \<le> size_cache (NewCache N :: 'a Cacheimpl)"
    and "Key ` set is \<inter> Key ` set (items (NewCache N :: 'a Cacheimpl)) = {}"
    using assms(1) by (simp_all add: NewCache_def)
  from run_puts_items [OF this(1,2) assms(2) this(3)] obtain c where
    run: "run_calls (NewCache N) (map Call_PutSignature is) = Returns c"
    and it: "items c = take (nat N) (rev is)" by (auto simp: NewCache_def)
  from it xs len have items: "items c = rev xs" by simp
  from assms(2) xs have nx: "Key x \<notin> Key ` set xs" and dist: "distinct (map Key xs)" by auto
  have "fst (GetSignature c (Key (hd is))) = None"
    using GetSignature_absent [of "Key x" c] nx items xs by simp
  moreover have "\<forall>i \<in> set (tl is). fst (GetSignature c (Key i)) = Some i"
  proof
    fix i assume "i \<in> set (tl is)"
    with xs items have "i \<in> set (items c)" by simp
    moreover from dist items have "distinct (map Key (items c))"
      by (simp add: rev_map [symmetric])
    ultimately show "fst (GetSignature c (Key i)) = Some i" by (rule GetSignature_present [rotated])
  qed
  ultimately show "\<exists>c. run_calls (NewCache N) (map Call_PutSignature is) = Returns c
            \<and> fst (GetSignature c (Key (hd is))) = None
            \<and> (\<forall>i \<in> set (tl is). fst (GetSignature c (Key i)) = Some i)"
    using run by blast
next
  show "\<forall>calls (c :: 'a Cacheimpl) key.
            run_calls (NewCache N) calls = Returns c \<and> key \<notin> set (put_keys calls) \<longrightarrow>
            GetSignature c key = (None, c)"
  proof (intro allI impI)
    fix calls and c :: "'a Cacheimpl" and key
    assume h: "run_calls (NewCache N) calls = Returns c \<and> key \<notin> set (put_keys calls)"
    then have "Key ` set (items c) \<subseteq> Key ` set (items (NewCache N :: 'a Cacheimpl)) \<union> set (put_keys calls)"
      using keys_run_calls by blast
    then have "Key ` set (items c) \<subseteq> set (put_keys calls)" by (simp add: NewCache_def)
    with h have "key \<notin> Key ` set (items c)" by (rule_tac notI) (erule conjE, erule notE, erule subsetD)
    then show "GetSignature c key = (None, c)" by (rule GetSignature_absent)
  qed
qed

theorem lru_eviction_after_overflow_witness:
  "\<exists>c. run_calls (NewCache 2) (map Call_PutSignature [item1, item2, item3]) = Returns c
     \<and> fst (GetSignature c (Key item1)) = None
     \<and> fst (GetSignature c (Key item2)) = Some item2
     \<and> fst (GetSignature c (Key item3)) = Some item3
     \<and> GetSignature c ''signature9'' = (None, c)"
proof -
  have hyps: "(1::int) \<le> 2" "distinct (map Key [item1, item2, item3])"
    "int (length [item1, item2, item3]) = 2 + 1"
    by (simp_all add: item1_def item2_def item3_def)
  from lru_eviction_after_overflow [OF hyps, THEN conjunct1] obtain c where
    run: "run_calls (NewCache 2) (map Call_PutSignature [item1, item2, item3]) = Returns c"
    and first: "fst (GetSignature c (Key (hd [item1, item2, item3]))) = None"
    and others: "\<forall>i \<in> set (tl [item1, item2, item3]). fst (GetSignature c (Key i)) = Some i"
    by (elim exE conjE)
  from first have 1: "fst (GetSignature c (Key item1)) = None" by simp
  from others have 2: "fst (GetSignature c (Key item2)) = Some item2"
    and 3: "fst (GetSignature c (Key item3)) = Some item3" by simp_all
  have "run_calls (NewCache 2) (map Call_PutSignature [item1, item2, item3]) = Returns c
        \<and> ''signature9'' \<notin> set (put_keys (map Call_PutSignature [item1, item2, item3]))"
    using run by (simp add: item1_def item2_def item3_def)
  with lru_eviction_after_overflow [OF hyps, THEN conjunct2]
  have 4: "GetSignature c ''signature9'' = (None, c)" by blast
  from run 1 2 3 4 show ?thesis by (intro exI conjI)
qed

text \<open>
  The claim C5 as stated, for every capacity, fails at capacity 0: the first
  PutSignature finds the length equal to the capacity, takes the back of the empty
  list and panics, so no key is ever put.
\<close>

theorem lru_capacity_zero_counterexample:
  "run_calls (NewCache 0) (map Call_PutSignature [item1]) = Panics NilPointerDereference"
  by (simp add: NewCache_def PutSignature_def getElement_def)

text \<open>
  C10. For a cache made by NewCache N with N at least 1, every sequence of GetSignature
  and PutSignature calls returns, keeps the capacity, and leaves at most N items;
  PutSignature of a key that is present leaves the number of items as it was, and
  PutSignature of a new key at capacity drops the back element and then pushes the
  item to the front.
\<close>

theorem cache_count_never_exceeds_capacity:
  assumes "1 \<le> N"
  shows "(\<exists>c :: 'a Cacheimpl. run_calls (NewCache N) calls = Returns c \<and> size_cache c = N
            \<and> int (length (items c)) \<le> N)
       \<and> (\<forall>(c :: 'a Cacheimpl) (i :: 'a Item) e. getElement c (Key i) = Some e \<longrightarrow>
            (\<exists>c'. PutSignature c i = Returns c' \<and> length (items c') = length (items c)))
       \<and> (\<forall>(c :: 'a Cacheimpl) (i :: 'a Item).
            size_cache c = N \<and> int (length (items c)) = N \<and> getElement c (Key i) = None \<longrightarrow>
            PutSignature c i = Returns (c\<lparr>items := i # butlast (items c)\<rparr>))"
proof (intro conjI)
  have "1 \<le> size_cache (NewCache N :: 'a Cacheimpl)"
    and "int (length (items (NewCache N :: 'a Cacheimpl))) \<le> size_cache (NewCache N :: 'a Cacheimpl)"
    using assms by (simp_all add: NewCache_def)
  from run_calls_bounded [OF this, of calls]
  show "\<exists>c :: 'a Cacheimpl. run_calls (NewCache N) calls = Returns c \<and> size_cache c = N
           \<and> int (length (items c)) \<le> N"
    by (simp add: NewCache_def)
  show "\<forall>(c :: 'a Cacheimpl) (i :: 'a Item) e. getElement c (Key i) = Some e \<longrightarrow>
           (\<exists>c'. PutSignature c i = Returns c' \<and> length (items c') = length (items c))"
    by (simp add: PutSignature_def length_MoveToFront)
  show "\<forall>(c :: 'a Cacheimpl) (i :: 'a Item).
           size_cache c = N \<and> int (length (items c)) = N \<and> getElement c (Key i) = None \<longrightarrow>
           PutSignature c i = Returns (c\<lparr>items := i # butlast (items c)\<rparr>)"
  proof (intro allI impI)
    fix c :: "'a Cacheimpl" and i :: "'a Item"
    assume h: "size_cache c = N \<and> int (length (items c)) = N \<and> getElement c (Key i) = None"
    with assms obtain x xs where "items c = x # xs" by (cases "items c") auto
    with h show "PutSignature c i = Returns (c\<lparr>items := i # butlast (items c)\<rparr>)"
      by (simp add: PutSignature_def)
  qed
qed

theorem cache_count_never_exceeds_capacity_witness:
  "(1::int) \<le> 2
   \<and> (\<exists>c. run_calls (NewCache 2)
           [Call_PutSignature item1, Call_GetSignature ''signature1'', Call_PutSignature item2,
            Call_PutSignature item3, Call_GetSignature ''signature2'', Call_PutSignature item4]
           = Returns c \<and> size_cache c = 2 \<and> int (length (items c)) \<le> 2)
   \<and> (\<exists>c'. PutSignature \<lparr>size_cache = 2, items = [item3, item1]\<rparr> item4 = Returns c'
           \<and> length (items c') = length [item3, item1])
   \<and> PutSignature \<lparr>size_cache = 2, items = [item2, item1]\<rparr> item3
         = Returns \<lparr>size_cache = 2, items = [item3, item2]\<rparr>"
proof -
  have h: "(1::int) \<le> 2" by simp
  note inst = cache_count_never_exceeds_capacity [OF h]
  have a: "\<exists>c. run_calls (NewCache 2)
           [Call_PutSignature item1, Call_GetSignature ''signature1'', Call_PutSignature item2,
            Call_PutSignature item3, Call_GetSignature ''signature2'', Call_PutSignature item4]
           = Returns c \<and> size_cache c = 2 \<and> int (length (items c)) \<le> 2"
    using inst by (rule conjunct1)
  have g: "getElement \<lparr>size_cache = 2, items = [item3, item1]\<rparr> (Key item4) = Some 0"
    by (simp add: getElement_def item3_def item4_def)
  have "\<exists>c'. PutSignature \<lparr>size_cache = 2, items = [item3, item1]\<rparr> item4 = Returns c'
           \<and> length (items c') = length (items \<lparr>size_cache = 2, items = [item3, item1]\<rparr>)"
    using inst [THEN conjunct2, THEN conjunct1] g by blast
  then have b: "\<exists>c'. PutSignature \<lparr>size_cache = 2, items = [item3, item1]\<rparr> item4 = Returns c'
           \<and> length (items c') = length [item3, item1]" by simp
  have n: "size_cache \<lparr>size_cache = 2, items = [item2, item1]\<rparr> = 2
       \<and> int (length (items \<lparr>size_cache = 2, items = [item2, item1]\<rparr>)) = 2
       \<and> getElement \<lparr>size_cache = 2, items = [item2, item1]\<rparr> (Key item3) = None"
    by (simp add: getElement_def item1_def item2_def item3_def)
  have "PutSignature \<lparr>size_cache = 2, items = [item2, item1]\<rparr> item3
         = Returns (\<lparr>size_cache = 2, items = [item2, item1]\<rparr>\<lparr>items := item3 # butlast (items \<lparr>size_cache = 2, items = [item2, item1]\<rparr>)\<rparr>)"
    using inst [THEN conjunct2, THEN conjunct2] n by blast
  then have c: "PutSignature \<lparr>size_cache = 2, items = [item2, item1]\<rparr> item3
         = Returns \<lparr>size_cache = 2, items = [item3, item2]\<rparr>" by simp
  from h a b c show ?thesis by (intro conjI)
qed

section \<open>Claims about validation, fetch and the rekor URL\<close>

lemma ValidateImage_cases:
  "ValidateImage lib sigstore ref = Returns (b, e) \<Longrightarrow>
     (b \<longrightarrow> e = None) \<and> (\<not> b \<longrightarrow> e \<noteq> None)"
  by (auto simp: ValidateImage_def validateRefDigest_def
      split: sum.splits option.splits Reference.splits if_splits)

text \<open>
  C2. FetchImageSignatures returns the signature list only when the verify function
  returned it with a nil error and verified true; and whenever the verify function,
  reached after the reference parsed and the image validated, returns an error or
  verified false, FetchImageSignatures returns an error, whatever the list holds.
\<close>

theorem FetchImageSignatures_only_verified:
  "(\<forall>sigs. FetchImageSignatures lib sigstore imageName = Returns (Inr sigs) \<longrightarrow>
      (\<exists>ref. name_ParseReference lib imageName = Inr ref
         \<and> verifyFunction sigstore ref (rekor_CheckOpts sigstore) = (sigs, True, None)))
   \<and> (\<forall>ref b sigs ok err.
        name_ParseReference lib imageName = Inr ref
        \<and> ValidateImage lib sigstore ref = Returns (b, None)
        \<and> verifyFunction sigstore ref (rekor_CheckOpts sigstore) = (sigs, ok, err)
        \<and> (err \<noteq> None \<or> \<not> ok) \<longrightarrow>
        (\<exists>message. FetchImageSignatures lib sigstore imageName = Returns (Inl message)))"
proof (intro conjI allI impI)
  fix sigs
  assume "FetchImageSignatures lib sigstore imageName = Returns (Inr sigs)"
  then show "\<exists>ref. name_ParseReference lib imageName = Inr ref
         \<and> verifyFunction sigstore ref (rekor_CheckOpts sigstore) = (sigs, True, None)"
    by (auto simp: FetchImageSignatures_def
        split: sum.splits exec.splits prod.splits option.splits if_splits)
next
  fix ref b sigs ok err
  assume "name_ParseReference lib imageName = Inr ref
        \<and> ValidateImage lib sigstore ref = Returns (b, None)
        \<and> verifyFunction sigstore ref (rekor_CheckOpts sigstore) = (sigs, ok, err)
        \<and> (err \<noteq> None \<or> \<not> ok)"
  then show "\<exists>message. FetchImageSignatures lib sigstore imageName = Returns (Inl message)"
    by (cases err) (auto simp: FetchImageSignatures_def)
qed

lemma ValidateImage_test:
  "ValidateImage test_lib (test_sigstore\<lparr>verifyFunction := v\<rparr>)
     (Digest ''registry/img'' ''sha256:deadbeef'') = Returns (True, None)"
  by (simp add: ValidateImage_def validateRefDigest_def test_sigstore_def New_def test_fetch_def
      test_lib_def test_SHA256_def)

theorem FetchImageSignatures_only_verified_witness:
  "(\<exists>message. FetchImageSignatures test_lib (test_sigstore\<lparr>verifyFunction := test_verify_unverified\<rparr>)
       ''registry/img@sha256:deadbeef'' = Returns (Inl message))
   \<and> (\<exists>message. FetchImageSignatures test_lib (test_sigstore\<lparr>verifyFunction := test_verify_error\<rparr>)
       ''registry/img@sha256:deadbeef'' = Returns (Inl message))
   \<and> FetchImageSignatures test_lib test_sigstore ''registry/img@sha256:deadbeef''
       = Returns (Inr [Some (sig_of payload_a (Some cert_email_b))])
   \<and> verifyFunction test_sigstore (Digest ''registry/img'' ''sha256:deadbeef'')
       (rekor_CheckOpts test_sigstore) = ([Some (sig_of payload_a (Some cert_email_b))], True, None)"
proof -
  let ?name = "''registry/img@sha256:deadbeef''"
  let ?ref = "Digest ''registry/img'' ''sha256:deadbeef''"
  let ?sigs = "[Some (sig_of payload_a (Some cert_email_b))]"
  have parse: "name_ParseReference test_lib ?name = Inr ?ref"
    by (simp add: test_lib_def test_ParseReference_def)
  have u: "verifyFunction (test_sigstore\<lparr>verifyFunction := test_verify_unverified\<rparr>) ?ref
             (rekor_CheckOpts (test_sigstore\<lparr>verifyFunction := test_verify_unverified\<rparr>))
           = (?sigs, False, None)"
    by (simp add: test_verify_unverified_def)
  have e: "verifyFunction (test_sigstore\<lparr>verifyFunction := test_verify_error\<rparr>) ?ref
             (rekor_CheckOpts (test_sigstore\<lparr>verifyFunction := test_verify_error\<rparr>))
           = (?sigs, True, Some ''no matching signatures'')"
    by (simp add: test_verify_error_def)
  have 1: "\<exists>message. FetchImageSignatures test_lib
             (test_sigstore\<lparr>verifyFunction := test_verify_unverified\<rparr>) ?name = Returns (Inl message)"
    using FetchImageSignatures_only_verified
            [of test_lib "test_sigstore\<lparr>verifyFunction := test_verify_unverified\<rparr>" ?name]
          parse ValidateImage_test [of test_verify_unverified] u
    by blast
  have 2: "\<exists>message. FetchImageSignatures test_lib
             (test_sigstore\<lparr>verifyFunction := test_verify_error\<rparr>) ?name = Returns (Inl message)"
    using FetchImageSignatures_only_verified
            [of test_lib "test_sigstore\<lparr>verifyFunction := test_verify_error\<rparr>" ?name]
          parse ValidateImage_test [of test_verify_error] e
    by blast
  have v: "test_sigstore\<lparr>verifyFunction := test_verify\<rparr> = test_sigstore"
    by (simp add: test_sigstore_def New_def)
  have 3: "FetchImageSignatures test_lib test_sigstore ?name = Returns (Inr ?sigs)"
    using parse ValidateImage_test [of test_verify] v
    by (simp add: FetchImageSignatures_def test_sigstore_def New_def test_verify_def)
  from FetchImageSignatures_only_verified [of test_lib test_sigstore ?name] 3 parse
  have 4: "verifyFunction test_sigstore ?ref (rekor_CheckOpts test_sigstore) = (?sigs, True, None)"
    by auto
  from 1 2 3 4 show ?thesis by (intro conjI)
qed

text \<open>
  C8. ValidateImage returns true only for a digest reference whose digest equals the
  hash of the fetched manifest, and then without an error; for a digest reference with
  another hash it returns false with the mismatch error; for a tag reference it
  returns false with the not-a-digest error, and never true.
\<close>

theorem ValidateImage_true_only_for_matching_digest:
  "(\<forall>e. ValidateImage lib sigstore ref = Returns (True, e) \<longrightarrow>
      e = None
      \<and> (\<exists>repository dgst desc manifest.
            ref = Digest repository dgst
            \<and> fetchImageManifestFunction sigstore ref = Inr (Some desc)
            \<and> Manifest desc = Some manifest
            \<and> v1_SHA256 lib manifest = Inr dgst))
   \<and> (\<forall>repository dgst desc manifest hash.
        ref = Digest repository dgst
        \<and> fetchImageManifestFunction sigstore ref = Inr (Some desc)
        \<and> Manifest desc = Some manifest
        \<and> v1_SHA256 lib manifest = Inr hash \<and> hash \<noteq> dgst \<longrightarrow>
        ValidateImage lib sigstore ref
          = Returns (False, Some (''Digest '' @ hash @ '' does not match '' @ dgst)))
   \<and> (\<forall>repository tag desc manifest hash.
        ref = Tag repository tag
        \<and> fetchImageManifestFunction sigstore ref = Inr (Some desc)
        \<and> Manifest desc = Some manifest
        \<and> v1_SHA256 lib manifest = Inr hash \<longrightarrow>
        ValidateImage lib sigstore ref
          = Returns (False, Some (''Reference '' @ Reference_String ref @ '' is not a digest'')))
   \<and> (\<forall>repository tag b e.
        ref = Tag repository tag \<and> ValidateImage lib sigstore ref = Returns (b, e) \<longrightarrow>
        \<not> b \<and> e \<noteq> None)"
proof (intro conjI allI impI)
  fix e
  assume h: "ValidateImage lib sigstore ref = Returns (True, e)"
  then show "e = None" using ValidateImage_cases by blast
  from h show "\<exists>repository dgst desc manifest.
            ref = Digest repository dgst
            \<and> fetchImageManifestFunction sigstore ref = Inr (Some desc)
            \<and> Manifest desc = Some manifest
            \<and> v1_SHA256 lib manifest = Inr dgst"
    by (auto simp: ValidateImage_def validateRefDigest_def
        split: sum.splits option.splits Reference.splits if_splits)
next
  fix repository dgst desc manifest hash
  assume "ref = Digest repository dgst
        \<and> fetchImageManifestFunction sigstore ref = Inr (Some desc)
        \<and> Manifest desc = Some manifest
        \<and> v1_SHA256 lib manifest = Inr hash \<and> hash \<noteq> dgst"
  then show "ValidateImage lib sigstore ref
          = Returns (False, Some (''Digest '' @ hash @ '' does not match '' @ dgst))"
    by (auto simp: ValidateImage_def validateRefDigest_def)
next
  fix repository tag desc manifest hash
  assume "ref = Tag repository tag
        \<and> fetchImageManifestFunction sigstore ref = Inr (Some desc)
        \<and> Manifest desc = Some manifest
        \<and> v1_SHA256 lib manifest = Inr hash"
  then show "ValidateImage lib sigstore ref
          = Returns (False, Some (''Reference '' @ Reference_String ref @ '' is not a digest''))"
    by (auto simp: ValidateImage_def validateRefDigest_def)
next
  fix repository tag b e
  assume h: "ref = Tag repository tag \<and> ValidateImage lib sigstore ref = Returns (b, e)"
  then show "\<not> b"
    by (auto simp: ValidateImage_def validateRefDigest_def
        split: sum.splits option.splits if_splits)
  from h show "e \<noteq> None"
    by (auto simp: ValidateImage_def validateRefDigest_def
        split: sum.splits option.splits if_splits)
qed

theorem ValidateImage_true_only_for_matching_digest_witness:
  "ValidateImage test_lib test_sigstore (Digest ''registry/img'' ''sha256:deadbeef'')
     = Returns (True, None)
   \<and> v1_SHA256 test_lib ''manifest of img'' = Inr ''sha256:deadbeef''
   \<and> ValidateImage test_lib (test_sigstore\<lparr>fetchImageManifestFunction := test_fetch_other\<rparr>)
       (Digest ''registry/img'' ''sha256:deadbeef'')
     = Returns (False, Some ''Digest sha256:0badcafe does not match sha256:deadbeef'')
   \<and> ValidateImage test_lib test_sigstore (Tag ''registry/img'' ''latest'')
     = Returns (False, Some ''Reference registry/img:latest is not a digest'')"
proof -
  let ?d = "Digest ''registry/img'' ''sha256:deadbeef''"
  let ?t = "Tag ''registry/img'' ''latest''"
  let ?other = "test_sigstore\<lparr>fetchImageManifestFunction := test_fetch_other\<rparr>"
  have 1: "ValidateImage test_lib test_sigstore ?d = Returns (True, None)"
    by (simp add: ValidateImage_def validateRefDigest_def test_sigstore_def New_def
        test_fetch_def test_lib_def test_SHA256_def)
  have 2: "v1_SHA256 test_lib ''manifest of img'' = Inr ''sha256:deadbeef''"
    by (simp add: test_lib_def test_SHA256_def)
  have "?d = Digest ''registry/img'' ''sha256:deadbeef''
        \<and> fetchImageManifestFunction ?other ?d = Inr (Some \<lparr>Manifest = Some ''manifest of another image''\<rparr>)
        \<and> Manifest \<lparr>Manifest = Some ''manifest of another image''\<rparr> = Some ''manifest of another image''
        \<and> v1_SHA256 test_lib ''manifest of another image'' = Inr ''sha256:0badcafe''
        \<and> ''sha256:0badcafe'' \<noteq> ''sha256:deadbeef''"
    by (simp add: test_fetch_other_def test_lib_def test_SHA256_def)
  with ValidateImage_true_only_for_matching_digest [of test_lib ?other ?d]
  have "ValidateImage test_lib ?other ?d
          = Returns (False, Some (''Digest '' @ ''sha256:0badcafe'' @ '' does not match '' @ ''sha256:deadbeef''))"
    by blast
  then have 3: "ValidateImage test_lib ?other ?d
          = Returns (False, Some ''Digest sha256:0badcafe does not match sha256:deadbeef'')"
    by simp
  have "?t = Tag ''registry/img'' ''latest''
        \<and> fetchImageManifestFunction test_sigstore ?t = Inr (Some \<lparr>Manifest = Some ''manifest of img''\<rparr>)
        \<and> Manifest \<lparr>Manifest = Some ''manifest of img''\<rparr> = Some ''manifest of img''
        \<and> v1_SHA256 test_lib ''manifest of img'' = Inr ''sha256:deadbeef''"
    by (simp add: test_sigstore_def New_def test_fetch_def test_lib_def test_SHA256_def)
  with ValidateImage_true_only_for_matching_digest [of test_lib test_sigstore ?t]
  have "ValidateImage test_lib test_sigstore ?t
          = Returns (False, Some (''Reference '' @ Reference_String ?t @ '' is not a digest''))"
    by blast
  then have 4: "ValidateImage test_lib test_sigstore ?t
          = Returns (False, Some ''Reference registry/img:latest is not a digest'')"
    by simp
  from 1 2 3 4 show ?thesis by (intro conjI)
qed

text \<open>
  C6, as amended. SetRekorURL accepts exactly the non-empty strings that url.Parse
  turns into a URL whose scheme is empty or https and whose host is non-empty, and then
  stores that URL; every other input, the empty string and a URL without a host
  included, is rejected with an error and nothing is stored.
\<close>

theorem SetRekorURL_accepts_exactly:
  "((\<exists>sigstore'. SetRekorURL lib sigstore rekorURL_str = Inr sigstore') \<longleftrightarrow>
      rekorURL_str \<noteq> ''''
      \<and> (\<exists>u. url_Parse lib rekorURL_str = Inr u
            \<and> (Scheme u = '''' \<or> Scheme u = ''https'') \<and> Host u \<noteq> ''''))
   \<and> (\<forall>sigstore'. SetRekorURL lib sigstore rekorURL_str = Inr sigstore' \<longrightarrow>
        (\<exists>u. url_Parse lib rekorURL_str = Inr u \<and> sigstore' = sigstore\<lparr>rekorURL := u\<rparr>))"
  by (auto simp: SetRekorURL_def split: sum.splits if_splits)

theorem SetRekorURL_accepts_exactly_witness:
  "SetRekorURL test_lib test_sigstore ''https://some.url/''
     = Inr (test_sigstore\<lparr>rekorURL := \<lparr>Scheme = ''https'', Host = ''some.url'', Path = ''/''\<rparr>\<rparr>)
   \<and> SetRekorURL test_lib test_sigstore ''//some.url/api''
     = Inr (test_sigstore\<lparr>rekorURL := \<lparr>Scheme = '''', Host = ''some.url'', Path = ''/api''\<rparr>\<rparr>)
   \<and> (\<forall>sigstore'. SetRekorURL test_lib test_sigstore ''abc://invalid.url.com'' \<noteq> Inr sigstore')"
proof -
  let ?u = "\<lparr>Scheme = ''https'', Host = ''some.url'', Path = ''/''\<rparr>"
  let ?v = "\<lparr>Scheme = '''', Host = ''some.url'', Path = ''/api''\<rparr>"
  have pu: "url_Parse test_lib ''https://some.url/'' = Inr ?u"
    and pv: "url_Parse test_lib ''//some.url/api'' = Inr ?v"
    and pw: "url_Parse test_lib ''abc://invalid.url.com''
               = Inr \<lparr>Scheme = ''abc'', Host = ''invalid.url.com'', Path = ''''\<rparr>"
    by (simp_all add: test_lib_def test_url_Parse_def)
  note a = SetRekorURL_accepts_exactly [of test_lib test_sigstore "''https://some.url/''"]
  note b = SetRekorURL_accepts_exactly [of test_lib test_sigstore "''//some.url/api''"]
  note c = SetRekorURL_accepts_exactly [of test_lib test_sigstore "''abc://invalid.url.com''"]
  have "\<exists>sigstore'. SetRekorURL test_lib test_sigstore ''https://some.url/'' = Inr sigstore'"
    using a pu by simp
  then have 1: "SetRekorURL test_lib test_sigstore ''https://some.url/''
                  = Inr (test_sigstore\<lparr>rekorURL := ?u\<rparr>)"
    using a pu by auto
  have "\<exists>sigstore'. SetRekorURL test_lib test_sigstore ''//some.url/api'' = Inr sigstore'"
    using b pv by simp
  then have 2: "SetRekorURL test_lib test_sigstore ''//some.url/api''
                  = Inr (test_sigstore\<lparr>rekorURL := ?v\<rparr>)"
    using b pv by auto
  have 3: "\<forall>sigstore'. SetRekorURL test_lib test_sigstore ''abc://invalid.url.com'' \<noteq> Inr sigstore'"
    using c pw by simp
  from 1 2 3 show ?thesis by (intro conjI)
qed

text \<open>
  The claim C6 as stated fails on the empty string and on a URL with neither scheme nor
  host: the specification's rule accepts both, SetRekorURL returns an error for both.
\<close>

theorem SetRekorURL_empty_counterexample:
  "RekorEndpoint_accepted_spec test_lib ''''
   \<and> SetRekorURL test_lib test_sigstore '''' = Inl ''Rekor URL is empty''
   \<and> RekorEndpoint_accepted_spec test_lib ''path-no-host''
   \<and> SetRekorURL test_lib test_sigstore ''path-no-host'' = Inl ''Invalid rekor URL Host: ''"
  by (simp add: RekorEndpoint_accepted_spec_def SetRekorURL_def test_lib_def test_url_Parse_def)

section \<open>Claims about subjects, selectors and attestation\<close>

lemma getSignatureSubject_test_None:
  "getSignatureSubject test_lib (Some (sig_of payload_a None)) = Returns (Inr ''a@x.com'')"
  by (simp add: getSignatureSubject_def sig_of_def json_Unmarshal_def test_lib_def
      test_decode_SimpleContainerImage_def payload_a_def payload_subject_def)

lemma getSignatureSubject_test_Some:
  "getSignatureSubject test_lib (Some (sig_of payload_a (Some cert)))
     = (case certSubject (Some cert) of
          Panics p \<Rightarrow> Panics p
        | Returns subject \<Rightarrow> Returns (Inr subject))"
  by (simp add: getSignatureSubject_def sig_of_def json_Unmarshal_def test_lib_def
      test_decode_SimpleContainerImage_def payload_a_def)




lemma ExtractSelectors_loop_append:
  "ExtractSelectors_loop lib sigstore containerID selectors (before @ after)
     = (case ExtractSelectors_loop lib sigstore containerID selectors before of
          Panics p \<Rightarrow> Panics p
        | Returns selectors' \<Rightarrow> ExtractSelectors_loop lib sigstore containerID selectors' after)"
  by (induction before arbitrary: selectors) (simp_all split: exec.splits)

text \<open>
  Where subject extraction returns: for a signature whose payload is empty, or does
  not parse as JSON, or for which getSignatureSubject returns the empty subject,
  SelectorValuesFromSignature returns the selector record with Verified false and
  every field empty, and ExtractSelectorsFromSignatures on a batch that holds such a
  signature gives what it gives on the batch without it.
\<close>

lemma returned_empty_subject_contributes_no_selector:
  assumes "(\<exists>sig. signature = Some sig
              \<and> (Payload_result sig = Inr []
                 \<or> (\<exists>pl err. Payload_result sig = Inr pl
                       \<and> json_Unmarshal (decode_SimpleContainerImage lib) pl = Inl err)))
           \<or> getSignatureSubject lib signature = Returns (Inr '''')"
  shows "SelectorValuesFromSignature lib sigstore signature containerID
           = Returns \<lparr>Subject = '''', Content = '''', LogID = '''', IntegratedTime = '''',
                       Verified = False\<rparr>
       \<and> ExtractSelectorsFromSignatures lib sigstore (before @ signature # after) containerID
           = ExtractSelectorsFromSignatures lib sigstore (before @ after) containerID"
proof -
  have sub: "(\<exists>err. getSignatureSubject lib signature = Returns (Inl err))
             \<or> getSignatureSubject lib signature = Returns (Inr '''')"
    using assms by (auto simp: getSignatureSubject_def json_Unmarshal_def)
  then have sel: "SelectorValuesFromSignature lib sigstore signature containerID
                    = Returns empty_SelectorsFromSignatures"
    by (auto simp: SelectorValuesFromSignature_def)
  have step: "ExtractSelectors_loop lib sigstore containerID selectors (signature # after)
          = ExtractSelectors_loop lib sigstore containerID selectors after" for selectors
    using sel by (simp add: empty_SelectorsFromSignatures_def)
  have "ExtractSelectorsFromSignatures lib sigstore (before @ signature # after) containerID
           = ExtractSelectorsFromSignatures lib sigstore (before @ after) containerID"
    unfolding ExtractSelectorsFromSignatures_def ExtractSelectors_loop_append step ..
  with sel show ?thesis by (simp add: empty_SelectorsFromSignatures_def)
qed

lemma SelectorValuesFromSignature_test_a:
  "SelectorValuesFromSignature test_lib test_sigstore (Some (sig_of payload_a None)) ''c1''
     = Returns selector_a"
  unfolding SelectorValuesFromSignature_def getSignatureSubject_test_None
  by (simp add: test_sigstore_def New_def sig_of_def empty_SelectorsFromSignatures_def
      selector_a_def)

lemma returned_empty_subject_contributes_no_selector_example:
  "SelectorValuesFromSignature test_lib test_sigstore (Some (sig_of [] None)) ''c1''
     = Returns \<lparr>Subject = '''', Content = '''', LogID = '''', IntegratedTime = '''', Verified = False\<rparr>
   \<and> SelectorValuesFromSignature test_lib test_sigstore (Some (sig_of payload_garbled None)) ''c1''
     = Returns \<lparr>Subject = '''', Content = '''', LogID = '''', IntegratedTime = '''', Verified = False\<rparr>
   \<and> SelectorValuesFromSignature test_lib test_sigstore
       (Some (sig_of payload_no_subject (Some cert_empty))) ''c1''
     = Returns \<lparr>Subject = '''', Content = '''', LogID = '''', IntegratedTime = '''', Verified = False\<rparr>
   \<and> ExtractSelectorsFromSignatures test_lib test_sigstore
       [Some (sig_of payload_a None), Some (sig_of payload_garbled None),
        Some (sig_of payload_a None)] ''c1''
     = Returns [selector_a, selector_a]"
proof -
  have e: "(\<exists>sig. Some (sig_of [] None) = Some sig
              \<and> (Payload_result sig = Inr []
                 \<or> (\<exists>pl err. Payload_result sig = Inr pl
                       \<and> json_Unmarshal (decode_SimpleContainerImage test_lib) pl = Inl err)))
           \<or> getSignatureSubject test_lib (Some (sig_of [] None)) = Returns (Inr '''')"
    by (simp add: sig_of_def)
  have "json_Unmarshal (decode_SimpleContainerImage test_lib) payload_garbled = Inl ''invalid character''"
    by (simp add: json_Unmarshal_def test_lib_def test_decode_SimpleContainerImage_def
        payload_garbled_def payload_a_def payload_no_subject_def)
  then have g: "(\<exists>sig. Some (sig_of payload_garbled None) = Some sig
              \<and> (Payload_result sig = Inr []
                 \<or> (\<exists>pl err. Payload_result sig = Inr pl
                       \<and> json_Unmarshal (decode_SimpleContainerImage test_lib) pl = Inl err)))
           \<or> getSignatureSubject test_lib (Some (sig_of payload_garbled None)) = Returns (Inr '''')"
    by (simp add: sig_of_def)
  have "getSignatureSubject test_lib (Some (sig_of payload_no_subject (Some cert_empty)))
          = Returns (Inr '''')"
    by (simp add: getSignatureSubject_def sig_of_def json_Unmarshal_def test_lib_def
        test_decode_SimpleContainerImage_def payload_no_subject_def payload_a_def
        certSubject_def cert_empty_def)
  then have n: "(\<exists>sig. Some (sig_of payload_no_subject (Some cert_empty)) = Some sig
              \<and> (Payload_result sig = Inr []
                 \<or> (\<exists>pl err. Payload_result sig = Inr pl
                       \<and> json_Unmarshal (decode_SimpleContainerImage test_lib) pl = Inl err)))
           \<or> getSignatureSubject test_lib (Some (sig_of payload_no_subject (Some cert_empty)))
               = Returns (Inr '''')"
    by (rule disjI2)
  note 1 = returned_empty_subject_contributes_no_selector
             [OF e, of test_sigstore "''c1''" "[]" "[]", THEN conjunct1]
  note 2 = returned_empty_subject_contributes_no_selector
             [OF g, of test_sigstore "''c1''" "[]" "[]", THEN conjunct1]
  note 3 = returned_empty_subject_contributes_no_selector
             [OF n, of test_sigstore "''c1''" "[]" "[]", THEN conjunct1]
  have "ExtractSelectorsFromSignatures test_lib test_sigstore
          ([Some (sig_of payload_a None)] @ Some (sig_of payload_garbled None)
             # [Some (sig_of payload_a None)]) ''c1''
        = ExtractSelectorsFromSignatures test_lib test_sigstore
          ([Some (sig_of payload_a None)] @ [Some (sig_of payload_a None)]) ''c1''"
    using returned_empty_subject_contributes_no_selector [OF g] by (rule conjunct2)
  then have 4: "ExtractSelectorsFromSignatures test_lib test_sigstore
       [Some (sig_of payload_a None), Some (sig_of payload_garbled None),
        Some (sig_of payload_a None)] ''c1''
     = Returns [selector_a, selector_a]"
    by (simp add: ExtractSelectorsFromSignatures_def SelectorValuesFromSignature_test_a
        selector_a_def)
  from 1 2 3 4 show ?thesis by (intro conjI)
qed

text \<open>
  C4. The claim: every signature that yields no subject by the payload or by the
  certificate gives the empty selector record, no error or panic reaches the caller, and
  ExtractSelectorsFromSignatures goes on with the rest of the batch. A signature whose
  payload parses and has no subject, with a certificate whose email and URI lists are
  empty but not nil, yields no subject by either path; in the source certSubject
  reads element 0 of the empty email list and panics, SelectorValuesFromSignature
  does not return, and ExtractSelectorsFromSignatures loses the selectors of the
  signatures before and after it, which the batch without it yields. This is the
  missing emptiness test of C7, reached through the batch.
\<close>

theorem empty_certificate_lists_abort_batch:
  "getSignatureSubject test_lib (Some (sig_of payload_no_subject (Some cert_empty_lists)))
     = Panics IndexOutOfRange
   \<and> SelectorValuesFromSignature test_lib test_sigstore
       (Some (sig_of payload_no_subject (Some cert_empty_lists))) ''c1''
     = Panics IndexOutOfRange
   \<and> ExtractSelectorsFromSignatures test_lib test_sigstore
       [Some (sig_of payload_a None), Some (sig_of payload_no_subject (Some cert_empty_lists)),
        Some (sig_of payload_a None)] ''c1''
     = Panics IndexOutOfRange
   \<and> ExtractSelectorsFromSignatures test_lib test_sigstore
       [Some (sig_of payload_a None), Some (sig_of payload_a None)] ''c1''
     = Returns [selector_a, selector_a]"
proof -
  let ?bad = "Some (sig_of payload_no_subject (Some cert_empty_lists))"
  have 1: "getSignatureSubject test_lib ?bad = Panics IndexOutOfRange"
    by (simp add: getSignatureSubject_def sig_of_def json_Unmarshal_def test_lib_def
        test_decode_SimpleContainerImage_def payload_no_subject_def payload_a_def
        certSubject_def cert_empty_lists_def)
  have 2: "SelectorValuesFromSignature test_lib test_sigstore ?bad ''c1'' = Panics IndexOutOfRange"
    unfolding SelectorValuesFromSignature_def 1 by simp
  have 3: "ExtractSelectorsFromSignatures test_lib test_sigstore
             [Some (sig_of payload_a None), ?bad, Some (sig_of payload_a None)] ''c1''
           = Panics IndexOutOfRange"
    by (simp add: ExtractSelectorsFromSignatures_def SelectorValuesFromSignature_test_a 2)
  have 4: "ExtractSelectorsFromSignatures test_lib test_sigstore
             [Some (sig_of payload_a None), Some (sig_of payload_a None)] ''c1''
           = Returns [selector_a, selector_a]"
    by (simp add: ExtractSelectorsFromSignatures_def SelectorValuesFromSignature_test_a
        selector_a_def)
  from 1 2 3 4 show ?thesis by (intro conjI)
qed

text \<open>
  C7. The claim: subject extraction returns a subject for every input and never panics.
  The source tests the slices of the certificate against nil and then reads element 0,
  and getOnlySubject reads element 0 of whatever the payload decoded to: a certificate
  with a non-nil but empty email list (or URI list), and a payload that decodes to an
  empty or null array, make the extraction panic with an index out of range.
\<close>

theorem subject_extraction_panics_on_empty_slices:
  "certSubject (Some cert_no_emails) = Panics IndexOutOfRange
   \<and> certSubject (Some \<lparr>EmailAddresses = None, URIs = Some []\<rparr>) = Panics IndexOutOfRange
   \<and> getSignatureSubject test_lib (Some (sig_of payload_a (Some cert_no_emails)))
       = Panics IndexOutOfRange
   \<and> SelectorValuesFromSignature test_lib test_sigstore
       (Some (sig_of payload_a (Some cert_no_emails))) ''c1'' = Panics IndexOutOfRange
   \<and> getOnlySubject test_decode_selector ''[]'' = Panics IndexOutOfRange
   \<and> getOnlySubject test_decode_selector ''null'' = Panics IndexOutOfRange"
  by (simp add: SelectorValuesFromSignature_def getSignatureSubject_test_Some certSubject_def
      cert_no_emails_def getOnlySubject_def json_Unmarshal_def test_decode_selector_def)

lemma fields_ClearSkipList:
  "allowListEnabled (ClearSkipList sigstore) = allowListEnabled sigstore"
  "subjectAllowList (ClearSkipList sigstore) = subjectAllowList sigstore"
  "verifyFunction (ClearSkipList sigstore) = verifyFunction sigstore"
  "fetchImageManifestFunction (ClearSkipList sigstore) = fetchImageManifestFunction sigstore"
  "rekorURL (ClearSkipList sigstore) = rekorURL sigstore"
  "sigstorecache (ClearSkipList sigstore) = sigstorecache sigstore"
  by (simp_all add: ClearSkipList_def)

lemma SelectorValuesFromSignature_ClearSkipList:
  "SelectorValuesFromSignature lib (ClearSkipList sigstore) signature containerID
     = SelectorValuesFromSignature lib sigstore signature containerID"
  unfolding SelectorValuesFromSignature_def fields_ClearSkipList ..

lemma ExtractSelectors_loop_ClearSkipList:
  "ExtractSelectors_loop lib (ClearSkipList sigstore) containerID selectors signatures
     = ExtractSelectors_loop lib sigstore containerID selectors signatures"
  by (induction signatures arbitrary: selectors)
     (simp_all add: SelectorValuesFromSignature_ClearSkipList cong: exec.case_cong)

lemma FetchImageSignatures_ClearSkipList:
  "FetchImageSignatures lib (ClearSkipList sigstore) imageName
     = FetchImageSignatures lib sigstore imageName"
  unfolding FetchImageSignatures_def ValidateImage_def rekor_CheckOpts_def fields_ClearSkipList ..

text \<open>
  C9. For a container status with an empty image id and a receiver whose skip list is
  not nil, ShouldSkipImage returns false with the error "Image ID is empty", and
  AttestContainerSignatures drops that error: it returns what it returns with the skip
  list cleared, that is the cached selectors on a cache hit, and on a miss the error of
  FetchImageSignatures or the selectors it extracts and stores.
\<close>

theorem AttestContainerSignatures_ignores_skip_error:
  assumes "ImageID status = ''''" and "skippedImages sigstore = Some skipped"
  shows "ShouldSkipImage sigstore (ImageID status) = (False, Some ''Image ID is empty'')
       \<and> AttestContainerSignatures lib sigstore (Some status)
           = AttestContainerSignatures lib (ClearSkipList sigstore) (Some status)
       \<and> (\<forall>cachedSignature cache.
            GetSignature (sigstorecache sigstore) '''' = (Some cachedSignature, cache) \<longrightarrow>
            AttestContainerSignatures lib sigstore (Some status)
              = Returns (Inr (render_selectors (Value cachedSignature) (ContainerID status)), cache))
       \<and> (\<forall>cache err.
            GetSignature (sigstorecache sigstore) '''' = (None, cache)
            \<and> FetchImageSignatures lib sigstore '''' = Returns (Inl err) \<longrightarrow>
            AttestContainerSignatures lib sigstore (Some status) = Returns (Inl err, cache))
       \<and> (\<forall>cache signatures selectors cache'.
            GetSignature (sigstorecache sigstore) '''' = (None, cache)
            \<and> FetchImageSignatures lib sigstore '''' = Returns (Inr signatures)
            \<and> ExtractSelectorsFromSignatures lib sigstore signatures (ContainerID status)
                = Returns selectors
            \<and> PutSignature cache \<lparr>Key = '''', Value = selectors\<rparr> = Returns cache' \<longrightarrow>
            AttestContainerSignatures lib sigstore (Some status)
              = Returns (Inr (render_selectors selectors (ContainerID status)), cache'))"
proof -
  have skip: "ShouldSkipImage sigstore (ImageID status) = (False, Some ''Image ID is empty'')"
    using assms by (simp add: ShouldSkipImage_def)
  have noskip: "fst (ShouldSkipImage (ClearSkipList sigstore) (ImageID status)) = False"
    by (simp add: ShouldSkipImage_def ClearSkipList_def)
  have ext: "ExtractSelectorsFromSignatures lib (ClearSkipList sigstore) signatures containerID
               = ExtractSelectorsFromSignatures lib sigstore signatures containerID"
    for signatures containerID
    by (simp add: ExtractSelectorsFromSignatures_def ExtractSelectors_loop_ClearSkipList)
  have same: "AttestContainerSignatures lib sigstore (Some status)
           = AttestContainerSignatures lib (ClearSkipList sigstore) (Some status)"
    unfolding AttestContainerSignatures_def fields_ClearSkipList
      FetchImageSignatures_ClearSkipList ext
    by (simp add: skip noskip)
  have rest: "(\<forall>cachedSignature cache.
            GetSignature (sigstorecache sigstore) '''' = (Some cachedSignature, cache) \<longrightarrow>
            AttestContainerSignatures lib sigstore (Some status)
              = Returns (Inr (render_selectors (Value cachedSignature) (ContainerID status)), cache))
       \<and> (\<forall>cache err.
            GetSignature (sigstorecache sigstore) '''' = (None, cache)
            \<and> FetchImageSignatures lib sigstore '''' = Returns (Inl err) \<longrightarrow>
            AttestContainerSignatures lib sigstore (Some status) = Returns (Inl err, cache))
       \<and> (\<forall>cache signatures selectors cache'.
            GetSignature (sigstorecache sigstore) '''' = (None, cache)
            \<and> FetchImageSignatures lib sigstore '''' = Returns (Inr signatures)
            \<and> ExtractSelectorsFromSignatures lib sigstore signatures (ContainerID status)
                = Returns selectors
            \<and> PutSignature cache \<lparr>Key = '''', Value = selectors\<rparr> = Returns cache' \<longrightarrow>
            AttestContainerSignatures lib sigstore (Some status)
              = Returns (Inr (render_selectors selectors (ContainerID status)), cache'))"
    using assms by (simp add: AttestContainerSignatures_def ShouldSkipImage_def)
  from skip same rest show ?thesis by (intro conjI) (elim conjE, assumption)+
qed

theorem AttestContainerSignatures_ignores_skip_error_witness:
  "ShouldSkipImage (AddSkippedImage test_sigstore ''sha256:sampleimagehash'') ''''
     = (False, Some ''Image ID is empty'')
   \<and> AttestContainerSignatures test_lib (AddSkippedImage test_sigstore ''sha256:sampleimagehash'')
       (Some test_status_no_imageID)
     = Returns (Inl ''Error parsing image reference: could not parse reference'', NewCache 2)"
proof -
  let ?s = "AddSkippedImage test_sigstore ''sha256:sampleimagehash''"
  have i: "ImageID test_status_no_imageID = ''''"
    by (simp add: test_status_no_imageID_def)
  have k: "skippedImages ?s = Some (Map.empty(''sha256:sampleimagehash'' \<mapsto> True))"
    by (simp add: AddSkippedImage_def test_sigstore_def New_def)
  note inst = AttestContainerSignatures_ignores_skip_error [OF i k, of test_lib]
  have 1: "ShouldSkipImage ?s '''' = (False, Some ''Image ID is empty'')"
    using inst [THEN conjunct1] i by simp
  have miss: "GetSignature (sigstorecache ?s) '''' = (None, NewCache 2)"
    by (simp add: AddSkippedImage_def test_sigstore_def New_def GetSignature_def getElement_def
        NewCache_def)
  have fetch: "FetchImageSignatures test_lib ?s ''''
                 = Returns (Inl ''Error parsing image reference: could not parse reference'')"
    by (simp add: FetchImageSignatures_def test_lib_def test_ParseReference_def)
  have 2: "AttestContainerSignatures test_lib ?s (Some test_status_no_imageID)
     = Returns (Inl ''Error parsing image reference: could not parse reference'', NewCache 2)"
    using inst [THEN conjunct2, THEN conjunct2, THEN conjunct2, THEN conjunct1] miss fetch
    by blast
  from 1 2 show ?thesis by (intro conjI)
qed

end
